theory Spec2Isabelle
  imports Main "HOL-Library.Sublist" "HOL-Library.Multiset"
begin

section \<open>The trivia API: request handlers over two tables\<close>

text \<open>
  The handlers of \<^verbatim>\<open>backend/flaskr/__init__.py\<close> are embedded as functions from a request
  and a database state to the result of the handler body: a value (the dictionary handed to
  \<^verbatim>\<open>jsonify\<close>) or the exception that left the body. The framework's dispatch of that result
  to an HTTP response is the function \<open>respond\<close>.
\<close>

subsection \<open>Python values and exceptions\<close>

text \<open>
  What \<^verbatim>\<open>request.get_json()\<close> returns and what the handlers build: Python objects. A
  dictionary is an association list in insertion order. JSON numbers are integers here;
  floating point numbers are outside the embedding.
\<close>

datatype pyval =
    PNone
  | PBool bool
  | PInt int
  | PStr string
  | PList "pyval list"
  | PDict "(pyval \<times> pyval) list"

text \<open>
  The exceptions that can leave a handler body. \<open>HTTPException c\<close> is what \<^verbatim>\<open>abort(c)\<close>
  raises. \<open>DataError\<close>, \<open>ProgrammingError\<close> and \<open>IntegrityError\<close> are the ORM's wrappers of
  the storage engine's errors (\<^verbatim>\<open>sqlalchemy.exc\<close>).
\<close>

datatype exc =
    HTTPException nat
  | KeyError
  | TypeError
  | ValueError
  | AttributeError
  | IndexError
  | DataError
  | ProgrammingError
  | IntegrityError

text \<open>\<^verbatim>\<open>obj[key]\<close> with a text key: a dictionary looks the key up, every other object
  refuses a text subscript.\<close>

fun subscript :: "pyval \<Rightarrow> string \<Rightarrow> exc + pyval" where
  "subscript (PDict kvs) key =
     (case map_of kvs (PStr key) of None \<Rightarrow> Inl KeyError | Some v \<Rightarrow> Inr v)"
| "subscript _ key = Inl TypeError"

text \<open>\<^verbatim>\<open>obj.get(key)\<close>: only a dictionary has the method; a missing key gives None.\<close>

fun py_get :: "pyval \<Rightarrow> string \<Rightarrow> exc + pyval" where
  "py_get (PDict kvs) key =
     (case map_of kvs (PStr key) of None \<Rightarrow> Inr PNone | Some v \<Rightarrow> Inr v)"
| "py_get _ key = Inl AttributeError"

text \<open>\<^verbatim>\<open>xs[i]\<close> on a list: an index from 0 up to the length reads from the front, a
  negative one down to minus the length reads from the back, any other raises IndexError.\<close>

definition py_index :: "'a list \<Rightarrow> int \<Rightarrow> exc + 'a" where
  "py_index xs i =
     (if 0 \<le> i \<and> i < int (length xs) then Inr (xs ! nat i)
      else if - int (length xs) \<le> i \<and> i < 0 then Inr (xs ! nat (int (length xs) + i))
      else Inl IndexError)"

text \<open>
  \<^verbatim>\<open>random.randrange(start, stop)\<close>: an empty range raises ValueError; otherwise the result
  lies in \<open>[start, stop)\<close>. The generator's outcome is an argument of the model, the draw
  \<open>r\<close>: over any \<open>stop - start\<close> consecutive draws every number of the range is produced
  exactly once.
\<close>

definition randrange :: "nat \<Rightarrow> int \<Rightarrow> int \<Rightarrow> exc + int" where
  "randrange r start stop =
     (if stop \<le> start then Inl ValueError else Inr (start + int r mod (stop - start)))"

text \<open>The dictionary comprehension \<^verbatim>\<open>{k: v for ...}\<close>: a later value of a key replaces
  the earlier one in place, a new key is appended.\<close>

definition dict_set :: "(pyval \<times> pyval) list \<Rightarrow> pyval \<Rightarrow> pyval \<Rightarrow> (pyval \<times> pyval) list" where
  "dict_set d k v =
     (if k \<in> fst ` set d then map (\<lambda>(k', v'). if k' = k then (k', v) else (k', v')) d
      else d @ [(k, v)])"

definition dict_comp :: "(pyval \<times> pyval) list \<Rightarrow> pyval" where
  "dict_comp kvs = PDict (foldl (\<lambda>d (k, v). dict_set d k v) [] kvs)"

subsection \<open>The platform\<close>

text \<open>
  Built-ins of Python and behaviours of the ORM and the storage engine that the handlers
  rely on and that are not code of this repository are arguments of the model.
  \<^item> \<open>py_int\<close>: \<^verbatim>\<open>int(s)\<close> on text; None is ValueError.
  \<^item> \<open>py_str\<close>: the text an f-string renders for a value that is not text.
  \<^item> \<open>pg_integer\<close>: the storage engine's reading of a text as an integer where it is compared
    with an integer column; None is the engine's refusal, raised as DataError.
  \<^item> \<open>pg_columns\<close>: the coercion of the values \<^verbatim>\<open>question, answer, difficulty, category\<close>
    to the column types when a row is inserted; \<open>Inl\<close> is the exception raised.
  \<^item> \<open>sa_notin\<close>: what \<^verbatim>\<open>notin_\<close> and the engine make of an operand that is not a list of
    integers: the ids it stands for, or the exception raised.
\<close>

record platform =
  py_int :: "string \<Rightarrow> int option"
  py_str :: "pyval \<Rightarrow> string"
  pg_integer :: "string \<Rightarrow> int option"
  pg_columns :: "pyval \<Rightarrow> pyval \<Rightarrow> pyval \<Rightarrow> pyval \<Rightarrow> exc + (string \<times> string \<times> int \<times> int)"
  sa_notin :: "pyval \<Rightarrow> exc + int list"

text \<open>\<^verbatim>\<open>int(v)\<close>: an integer is itself, a boolean is 0 or 1, text is parsed (ValueError when
  it is no numeral), anything else is a TypeError.\<close>

fun int_of :: "platform \<Rightarrow> pyval \<Rightarrow> exc + int" where
  "int_of P (PInt n) = Inr n"
| "int_of P (PBool b) = Inr (if b then 1 else 0)"
| "int_of P (PStr s) = (case py_int P s of None \<Rightarrow> Inl ValueError | Some n \<Rightarrow> Inr n)"
| "int_of P _ = Inl TypeError"

text \<open>\<^verbatim>\<open>f'{v}'\<close>: text is inserted as it is.\<close>

fun fstring :: "platform \<Rightarrow> pyval \<Rightarrow> string" where
  "fstring P (PStr s) = s"
| "fstring P v = py_str P v"

text \<open>\<^verbatim>\<open>request.args.get(key, default, type=int)\<close>: the default when the parameter is
  absent or its conversion raises ValueError.\<close>

definition args_get :: "platform \<Rightarrow> (string \<rightharpoonup> string) \<Rightarrow> string \<Rightarrow> int \<Rightarrow> int" where
  "args_get P args key dflt =
     (case args key of
        None \<Rightarrow> dflt
      | Some s \<Rightarrow> (case py_int P s of None \<Rightarrow> dflt | Some n \<Rightarrow> n))"

subsection \<open>The data model\<close>

text \<open>
  Modelled from the spec: the classes \<^verbatim>\<open>Question\<close> and \<^verbatim>\<open>Category\<close> of \<^verbatim>\<open>models.py\<close>,
  which is not among the sources. Question: \<^verbatim>\<open>id\<close> (integer, primary key, generated),
  \<^verbatim>\<open>question\<close> (text), \<^verbatim>\<open>answer\<close> (text), \<^verbatim>\<open>category\<close> (integer), \<^verbatim>\<open>difficulty\<close>
  (integer). Category: \<^verbatim>\<open>id\<close> (integer, primary key), \<^verbatim>\<open>type\<close> (text).
\<close>

record question =
  q_id :: int
  q_question :: string
  q_answer :: string
  q_category :: int
  q_difficulty :: int

record category =
  c_id :: int
  c_type :: string

text \<open>The database: the two tables in storage order and the sequence that generates
  question ids.\<close>

record db =
  questions :: "question list"
  categories :: "category list"
  next_id :: int

text \<open>The primary keys are unique, and the sequence is ahead of every id in use.\<close>

definition wf_db :: "db \<Rightarrow> bool" where
  "wf_db d =
     (distinct (map q_id (questions d)) \<and> distinct (map c_id (categories d)) \<and>
      list_all (\<lambda>q. q_id q < next_id d) (questions d))"

text \<open>Modelled from the spec: \<^verbatim>\<open>Question.format()\<close>, the public representation of a
  question (id, question text, answer, category, difficulty).\<close>

definition question_format :: "question \<Rightarrow> pyval" where
  "question_format q =
     PDict [(PStr ''id'', PInt (q_id q)),
            (PStr ''question'', PStr (q_question q)),
            (PStr ''answer'', PStr (q_answer q)),
            (PStr ''category'', PInt (q_category q)),
            (PStr ''difficulty'', PInt (q_difficulty q))]"

text \<open>Modelled from the spec: \<^verbatim>\<open>Question(...)\<close> followed by \<^verbatim>\<open>insert()\<close>: the engine
  coerces the four values to the columns, the sequence generates the id, and the row is
  appended. A refused value leaves the table as it was.\<close>

definition question_insert ::
  "platform \<Rightarrow> pyval \<Rightarrow> pyval \<Rightarrow> pyval \<Rightarrow> pyval \<Rightarrow> db \<Rightarrow> exc + (question \<times> db)" where
  "question_insert P new_question new_answer new_difficulty new_category d =
     (case pg_columns P new_question new_answer new_difficulty new_category of
        Inl e \<Rightarrow> Inl e
      | Inr (qt, an, df, ct) \<Rightarrow>
          let q = \<lparr>q_id = next_id d, q_question = qt, q_answer = an,
                   q_category = ct, q_difficulty = df\<rparr>
          in Inr (q, d\<lparr>questions := questions d @ [q], next_id := next_id d + 1\<rparr>))"

text \<open>Modelled from the spec: \<^verbatim>\<open>question.delete()\<close> removes the row of that id.\<close>

definition question_delete :: "question \<Rightarrow> db \<Rightarrow> db" where
  "question_delete q d = d\<lparr>questions := filter (\<lambda>r. q_id r \<noteq> q_id q) (questions d)\<rparr>"

subsection \<open>Queries\<close>

text \<open>\<^verbatim>\<open>order_by(Question.id)\<close> and \<^verbatim>\<open>order_by(Category.id)\<close>.\<close>

definition order_by_id :: "question list \<Rightarrow> question list" where
  "order_by_id qs = sort_key q_id qs"

definition order_by_cid :: "category list \<Rightarrow> category list" where
  "order_by_cid cs = sort_key c_id cs"

text \<open>\<^verbatim>\<open>.limit(l).offset(o).all()\<close>: the engine takes a row count that is not negative and
  fits its 64-bit integer; any other count is refused with a DataError.\<close>

definition pg_row_count :: "int \<Rightarrow> bool" where
  "pg_row_count n = (0 \<le> n \<and> n < 2 ^ 63)"

definition limit_offset :: "int \<Rightarrow> int \<Rightarrow> 'a list \<Rightarrow> exc + 'a list" where
  "limit_offset l off rows =
     (if pg_row_count l \<and> pg_row_count off then Inr (take (nat l) (drop (nat off) rows))
      else Inl DataError)"

text \<open>\<^verbatim>\<open>Question.query.get(question_id)\<close> with the path's text: the engine reads the text
  as an integer, and the row of that id, if any, is the result.\<close>

definition query_get :: "platform \<Rightarrow> db \<Rightarrow> string \<Rightarrow> exc + question option" where
  "query_get P d question_id =
     (case pg_integer P question_id of
        None \<Rightarrow> Inl DataError
      | Some i \<Rightarrow> Inr (find (\<lambda>q. q_id q = i) (questions d)))"

text \<open>\<^verbatim>\<open>Question.id.notin_(previous_questions)\<close>: a list of integers stands for itself.\<close>

fun int_items :: "pyval list \<Rightarrow> int list option" where
  "int_items [] = Some []"
| "int_items (PInt n # vs) = (case int_items vs of None \<Rightarrow> None | Some ns \<Rightarrow> Some (n # ns))"
| "int_items (v # vs) = None"

fun notin_ids :: "platform \<Rightarrow> pyval \<Rightarrow> exc + int list" where
  "notin_ids P (PList vs) =
     (case int_items vs of None \<Rightarrow> sa_notin P (PList vs) | Some ns \<Rightarrow> Inr ns)"
| "notin_ids P v = sa_notin P v"

text \<open>
  \<^verbatim>\<open>ilike\<close>: the engine's pattern match, on the lower-cased pattern and text. In a
  pattern \<open>%\<close> stands for any text, \<open>_\<close> for any one character, and a backslash makes the
  character after it literal. (A pattern that ends in a lone backslash is refused by the
  engine; the handler's patterns end in \<open>%\<close>, and the match below is False there.)
  Letters are the ASCII letters.
\<close>

definition lower_char :: "char \<Rightarrow> char" where
  "lower_char c =
     (if 65 \<le> (of_char c :: nat) \<and> (of_char c :: nat) \<le> 90
      then char_of ((of_char c :: nat) + 32) else c)"

definition lower :: "string \<Rightarrow> string" where
  "lower s = map lower_char s"

fun like_match :: "string \<Rightarrow> string \<Rightarrow> bool" where
  "like_match [] [] = True"
| "like_match [] (c # cs) = False"
| "like_match (p # ps) [] = (p = CHR ''%'' \<and> like_match ps [])"
| "like_match (p # ps) (c # cs) =
     (if p = CHR ''%'' then like_match ps (c # cs) \<or> like_match (p # ps) cs
      else if p = CHR 0x5C then
        (case ps of [] \<Rightarrow> False | e # ps' \<Rightarrow> e = c \<and> like_match ps' cs)
      else if p = CHR ''_'' then like_match ps cs
      else p = c \<and> like_match ps cs)"

definition ilike :: "string \<Rightarrow> string \<Rightarrow> bool" where
  "ilike pat s = like_match (lower pat) (lower s)"

text \<open>The search as the documentation of \<^verbatim>\<open>search_question\<close> and the spec word it: the
  search term is a substring of the question, letter case apart.\<close>

definition contains_ci :: "string \<Rightarrow> string \<Rightarrow> bool" where
  "contains_ci query text = sublist (lower query) (lower text)"

text \<open>A character that stands for itself in a pattern: not one of \<open>%\<close>, \<open>_\<close> and the
  backslash.\<close>

definition plain_char :: "char \<Rightarrow> bool" where
  "plain_char c = (c \<noteq> CHR ''%'' \<and> c \<noteq> CHR ''_'' \<and> c \<noteq> CHR 0x5C)"

subsection \<open>The error handlers and the dispatch\<close>

record http_response =
  status :: nat
  payload :: pyval

definition error_envelope :: "nat \<Rightarrow> string \<Rightarrow> http_response" where
  "error_envelope code message =
     \<lparr>status = code,
      payload = PDict [(PStr ''success'', PBool False),
                       (PStr ''error'', PInt (int code)),
                       (PStr ''message'', PStr message)]\<rparr>"

definition bad_request :: http_response where
  "bad_request = error_envelope 400 ''Bad Request''"

definition not_found :: http_response where
  "not_found = error_envelope 404 ''Not Found''"

definition unprocessable_entity :: http_response where
  "unprocessable_entity = error_envelope 422 ''Unprocessable Entity''"

definition internal_server_error :: http_response where
  "internal_server_error = error_envelope 500 ''Internal Server Error''"

text \<open>
  What the framework makes of a handler's result: a returned dictionary is the body of a
  200 response; an \<open>HTTPException\<close> goes to the handler registered for its code (a code
  without one gets the framework's own page, which has no JSON body); any other exception
  is an internal server error.
\<close>

fun respond :: "exc + pyval \<Rightarrow> http_response" where
  "respond (Inr v) = \<lparr>status = 200, payload = v\<rparr>"
| "respond (Inl (HTTPException c)) =
     (if c = 400 then bad_request
      else if c = 404 then not_found
      else if c = 422 then unprocessable_entity
      else if c = 500 then internal_server_error
      else \<lparr>status = c, payload = PNone\<rparr>)"
| "respond (Inl e) = internal_server_error"

subsection \<open>The handlers\<close>

definition category_dict :: "category list \<Rightarrow> pyval" where
  "category_dict cs = dict_comp (map (\<lambda>c. (PInt (c_id c), PStr (c_type c))) cs)"

definition get_categories :: "db \<Rightarrow> exc + pyval" where
  "get_categories d =
     (let cs = order_by_cid (categories d)
      in if length cs = 0 then Inl (HTTPException 404)
         else Inr (PDict [(PStr ''success'', PBool True),
                          (PStr ''categories'', category_dict cs)]))"

text \<open>The query of \<^verbatim>\<open>get_questions\<close>: the page of the questions in id order that the
  parameters \<^verbatim>\<open>limit\<close> (default 10) and \<^verbatim>\<open>page\<close> (default 1) select.\<close>

definition questions_page :: "platform \<Rightarrow> (string \<rightharpoonup> string) \<Rightarrow> db \<Rightarrow> exc + question list" where
  "questions_page P args d =
     (let limit = args_get P args ''limit'' 10;
          page = args_get P args ''page'' 1
      in limit_offset limit ((page - 1) * limit) (order_by_id (questions d)))"

definition get_questions :: "platform \<Rightarrow> (string \<rightharpoonup> string) \<Rightarrow> db \<Rightarrow> exc + pyval" where
  "get_questions P args d =
     (case questions_page P args d of
        Inl e \<Rightarrow> Inl e
      | Inr qs \<Rightarrow>
          (let current_questions = map question_format qs;
               cs = order_by_cid (categories d)
           in if length current_questions = 0 then Inl (HTTPException 404)
              else Inr (PDict [(PStr ''success'', PBool True),
                               (PStr ''questions'', PList current_questions),
                               (PStr ''total_questions'', PInt (int (length (questions d)))),
                               (PStr ''categories'', category_dict cs),
                               (PStr ''current_category'', PNone)])))"

text \<open>The body of the \<^verbatim>\<open>try\<close> of \<^verbatim>\<open>delete_question\<close>: calling \<^verbatim>\<open>delete\<close> on the
  None of a missing row is an AttributeError.\<close>

definition delete_question_try :: "platform \<Rightarrow> string \<Rightarrow> db \<Rightarrow> (exc + pyval) \<times> db" where
  "delete_question_try P question_id d =
     (case query_get P d question_id of
        Inl e \<Rightarrow> (Inl e, d)
      | Inr None \<Rightarrow> (Inl AttributeError, d)
      | Inr (Some q) \<Rightarrow>
          (Inr (PDict [(PStr ''success'', PBool True),
                       (PStr ''deleted'', PStr question_id)]),
           question_delete q d))"

definition delete_question :: "platform \<Rightarrow> string \<Rightarrow> db \<Rightarrow> (exc + pyval) \<times> db" where
  "delete_question P question_id d =
     (case delete_question_try P question_id d of
        (Inl DataError, d') \<Rightarrow> (Inl (HTTPException 400), d')
      | (Inl AttributeError, d') \<Rightarrow> (Inl (HTTPException 404), d')
      | r \<Rightarrow> r)"

text \<open>The two \<^verbatim>\<open>except\<close> clauses shared by the handlers that read a JSON body.\<close>

fun except_key_type :: "exc + 'a \<Rightarrow> exc + 'a" where
  "except_key_type (Inl KeyError) = Inl (HTTPException 400)"
| "except_key_type (Inl TypeError) = Inl (HTTPException 400)"
| "except_key_type r = r"

definition create_question_try :: "platform \<Rightarrow> pyval \<Rightarrow> db \<Rightarrow> (exc + pyval) \<times> db" where
  "create_question_try P body d =
     (case subscript body ''question'' of Inl e \<Rightarrow> (Inl e, d) | Inr new_question \<Rightarrow>
      case subscript body ''answer'' of Inl e \<Rightarrow> (Inl e, d) | Inr new_answer \<Rightarrow>
      case subscript body ''difficulty'' of Inl e \<Rightarrow> (Inl e, d) | Inr new_difficulty \<Rightarrow>
      case subscript body ''category'' of Inl e \<Rightarrow> (Inl e, d) | Inr new_category \<Rightarrow>
      case question_insert P new_question new_answer new_difficulty new_category d of
        Inl e \<Rightarrow> (Inl e, d)
      | Inr (q, d') \<Rightarrow>
          (Inr (PDict [(PStr ''success'', PBool True),
                       (PStr ''created'', PInt (q_id q))]), d'))"

definition create_question :: "platform \<Rightarrow> pyval \<Rightarrow> db \<Rightarrow> (exc + pyval) \<times> db" where
  "create_question P body d =
     (case create_question_try P body d of (r, d') \<Rightarrow> (except_key_type r, d'))"

definition search_question_try :: "platform \<Rightarrow> pyval \<Rightarrow> db \<Rightarrow> exc + pyval" where
  "search_question_try P body d =
     (case subscript body ''query'' of Inl e \<Rightarrow> Inl e | Inr query \<Rightarrow>
      let qs = filter (\<lambda>q. ilike (''%'' @ fstring P query @ ''%'') (q_question q)) (questions d)
      in Inr (PDict [(PStr ''success'', PBool True),
                     (PStr ''questions'', PList (map question_format qs)),
                     (PStr ''total_questions'', PInt (int (length qs))),
                     (PStr ''current_category'', PNone)]))"

definition search_question :: "platform \<Rightarrow> pyval \<Rightarrow> db \<Rightarrow> exc + pyval" where
  "search_question P body d = except_key_type (search_question_try P body d)"

definition get_questions_by_category_try :: "platform \<Rightarrow> string \<Rightarrow> db \<Rightarrow> exc + pyval" where
  "get_questions_by_category_try P category_id d =
     (case pg_integer P category_id of
        None \<Rightarrow> Inl DataError
      | Some c \<Rightarrow>
          let qs = filter (\<lambda>q. q_category q = c) (questions d)
          in Inr (PDict [(PStr ''success'', PBool True),
                         (PStr ''questions'', PList (map question_format qs)),
                         (PStr ''total_questions'', PInt (int (length qs))),
                         (PStr ''current_category'', PStr category_id)]))"

definition get_questions_by_category :: "platform \<Rightarrow> string \<Rightarrow> db \<Rightarrow> exc + pyval" where
  "get_questions_by_category P category_id d =
     (case get_questions_by_category_try P category_id d of
        Inl DataError \<Rightarrow> Inl (HTTPException 400)
      | r \<Rightarrow> r)"

text \<open>The candidates of a quiz round: the questions whose id is not among \<open>ids\<close>, of the
  category when \<open>category_id\<close> is not 0.\<close>

definition quiz_candidates :: "int \<Rightarrow> int list \<Rightarrow> db \<Rightarrow> question list" where
  "quiz_candidates category_id ids d =
     (if category_id \<noteq> 0
      then filter (\<lambda>q. q_id q \<notin> set ids \<and> q_category q = category_id) (questions d)
      else filter (\<lambda>q. q_id q \<notin> set ids) (questions d))"

definition play_quiz_try :: "platform \<Rightarrow> nat \<Rightarrow> pyval \<Rightarrow> db \<Rightarrow> exc + pyval" where
  "play_quiz_try P r body d =
     (case subscript body ''previous_questions'' of Inl e \<Rightarrow> Inl e | Inr previous_questions \<Rightarrow>
      case subscript body ''quiz_category'' of Inl e \<Rightarrow> Inl e | Inr quiz_category \<Rightarrow>
      case py_get quiz_category ''id'' of Inl e \<Rightarrow> Inl e | Inr idv \<Rightarrow>
      case int_of P idv of Inl e \<Rightarrow> Inl e | Inr category_id \<Rightarrow>
      case notin_ids P previous_questions of Inl e \<Rightarrow> Inl e | Inr ids \<Rightarrow>
      let qs = quiz_candidates category_id ids d
      in case randrange r 0 (int (length qs)) of Inl e \<Rightarrow> Inl e | Inr i \<Rightarrow>
         case py_index qs i of Inl e \<Rightarrow> Inl e | Inr q \<Rightarrow>
           Inr (PDict [(PStr ''success'', PBool True),
                       (PStr ''question'', question_format q)]))"

definition play_quiz :: "platform \<Rightarrow> nat \<Rightarrow> pyval \<Rightarrow> db \<Rightarrow> exc + pyval" where
  "play_quiz P r body d = except_key_type (play_quiz_try P r body d)"

subsection \<open>A reference platform and sample states\<close>

text \<open>
  To run the handlers on concrete requests the platform is instantiated. \<open>dec_int\<close> reads a
  plain decimal numeral with an optional minus sign, on which \<^verbatim>\<open>int\<close> of Python and the
  integer input of the storage engine agree; both refuse a text without digits such as
  \<^verbatim>\<open>abc\<close>. Both also read forms that \<open>dec_int\<close> refuses (blanks around the numeral, a
  plus sign): the instance is exact on plain numerals and on texts without digits, and it is
  applied below to such texts only. The results that hold for every platform do not depend
  on it.
\<close>

definition digit_of :: "char \<Rightarrow> nat option" where
  "digit_of c =
     (if 48 \<le> (of_char c :: nat) \<and> (of_char c :: nat) \<le> 57
      then Some ((of_char c :: nat) - 48) else None)"

fun dec_nat :: "nat \<Rightarrow> string \<Rightarrow> nat option" where
  "dec_nat acc [] = Some acc"
| "dec_nat acc (c # cs) =
     (case digit_of c of None \<Rightarrow> None | Some v \<Rightarrow> dec_nat (10 * acc + v) cs)"

definition dec_int :: "string \<Rightarrow> int option" where
  "dec_int s =
     (case s of
        [] \<Rightarrow> None
      | c # cs \<Rightarrow>
          if c = CHR ''-''
          then (if cs = [] then None else map_option (\<lambda>n. - int n) (dec_nat 0 cs))
          else map_option int (dec_nat 0 s))"

text \<open>The engine's integer columns hold 32 bits.\<close>

definition ref_integer :: "string \<Rightarrow> int option" where
  "ref_integer s =
     (case dec_int s of
        None \<Rightarrow> None
      | Some n \<Rightarrow> if - (2 ^ 31) \<le> n \<and> n < 2 ^ 31 then Some n else None)"

text \<open>
  The coercion at insertion of the reference platform: a text column takes text, an integer
  column takes an integer of its range or a text the engine reads as one, and a text that is
  no numeral is refused with a DataError, as in a comparison. For every other shape this
  instance raises ProgrammingError; that is a choice of the instance, and not always the
  engine's (which stores a number given for a text column as its text). The instance is
  applied below to text for the text columns only.
\<close>

fun ref_text_column :: "pyval \<Rightarrow> exc + string" where
  "ref_text_column (PStr s) = Inr s"
| "ref_text_column _ = Inl ProgrammingError"

fun ref_integer_column :: "pyval \<Rightarrow> exc + int" where
  "ref_integer_column (PInt n) =
     (if - (2 ^ 31) \<le> n \<and> n < 2 ^ 31 then Inr n else Inl DataError)"
| "ref_integer_column (PStr s) =
     (case ref_integer s of None \<Rightarrow> Inl DataError | Some n \<Rightarrow> Inr n)"
| "ref_integer_column _ = Inl ProgrammingError"

definition ref_columns ::
  "pyval \<Rightarrow> pyval \<Rightarrow> pyval \<Rightarrow> pyval \<Rightarrow> exc + (string \<times> string \<times> int \<times> int)" where
  "ref_columns new_question new_answer new_difficulty new_category =
     (case ref_text_column new_question of Inl e \<Rightarrow> Inl e | Inr qt \<Rightarrow>
      case ref_text_column new_answer of Inl e \<Rightarrow> Inl e | Inr an \<Rightarrow>
      case ref_integer_column new_difficulty of Inl e \<Rightarrow> Inl e | Inr df \<Rightarrow>
      case ref_integer_column new_category of Inl e \<Rightarrow> Inl e | Inr ct \<Rightarrow>
        Inr (qt, an, df, ct))"

text \<open>The requests below carry text queries and lists of integer ids, so \<open>py_str\<close> and
  \<open>sa_notin\<close> of the instance are never reached; they are fixed arbitrarily and say nothing
  about how Python renders a number or what the ORM makes of another operand.\<close>

definition ref_platform :: platform where
  "ref_platform =
     \<lparr>py_int = dec_int,
      py_str = (\<lambda>v. []),
      pg_integer = ref_integer,
      pg_columns = ref_columns,
      sa_notin = (\<lambda>v. Inl ProgrammingError)\<rparr>"

definition q1 :: question where
  "q1 = \<lparr>q_id = 1, q_question = ''abc'', q_answer = ''x'', q_category = 1, q_difficulty = 2\<rparr>"

definition q2 :: question where
  "q2 = \<lparr>q_id = 2, q_question = ''What Title?'', q_answer = ''y'', q_category = 2,
          q_difficulty = 3\<rparr>"

definition q3 :: question where
  "q3 = \<lparr>q_id = 3, q_question = ''50% off'', q_answer = ''z'', q_category = 1,
          q_difficulty = 1\<rparr>"

definition cat1 :: category where
  "cat1 = \<lparr>c_id = 1, c_type = ''Science''\<rparr>"

definition cat2 :: category where
  "cat2 = \<lparr>c_id = 2, c_type = ''Art''\<rparr>"

text \<open>A state whose tables are stored out of id order, and one without categories.\<close>

definition db3 :: db where
  "db3 = \<lparr>questions = [q2, q1, q3], categories = [cat2, cat1], next_id = 4\<rparr>"

definition db_no_categories :: db where
  "db_no_categories = \<lparr>questions = [q1], categories = [], next_id = 2\<rparr>"

text \<open>Sample request bodies: a quiz request as the test suite sends it, with the given
  previous ids and the given \<^verbatim>\<open>id\<close> of the category, and a request to create a question
  with the given difficulty.\<close>

definition quiz_request :: "int list \<Rightarrow> pyval \<Rightarrow> pyval" where
  "quiz_request ids idv =
     PDict [(PStr ''previous_questions'', PList (map PInt ids)),
            (PStr ''quiz_category'', PDict [(PStr ''type'', PStr ''Science''),
                                            (PStr ''id'', idv)])]"

definition create_request :: "pyval \<Rightarrow> pyval" where
  "create_request difficulty =
     PDict [(PStr ''question'', PStr ''test question''),
            (PStr ''answer'', PStr ''test answer''),
            (PStr ''difficulty'', difficulty),
            (PStr ''category'', PInt 1)]"

definition search_request :: "string \<Rightarrow> pyval" where
  "search_request query = PDict [(PStr ''query'', PStr query)]"

section \<open>Properties\<close>

subsection \<open>Dictionaries built from rows with unique keys\<close>

lemma foldl_dict_set_distinct:
  "distinct (map fst (acc @ kvs)) \<Longrightarrow>
   foldl (\<lambda>d (k, v). dict_set d k v) acc kvs = acc @ kvs"
proof (induction kvs arbitrary: acc)
  case Nil
  then show ?case by simp
next
  case (Cons kv kvs)
  obtain k v where kv: "kv = (k, v)" by (cases kv)
  from Cons.prems kv have fresh: "k \<notin> fst ` set acc" by auto
  then have step: "dict_set acc k v = acc @ [(k, v)]" by (simp add: dict_set_def)
  from Cons.prems kv have "distinct (map fst ((acc @ [(k, v)]) @ kvs))" by simp
  from Cons.IH [OF this] step kv show ?case by simp
qed

lemma dict_comp_distinct: "distinct (map fst kvs) \<Longrightarrow> dict_comp kvs = PDict kvs"
  using foldl_dict_set_distinct [of "[]" kvs] by (simp add: dict_comp_def)

lemma category_dict_distinct:
  assumes "distinct (map c_id cs)"
  shows "category_dict cs = PDict (map (\<lambda>c. (PInt (c_id c), PStr (c_type c))) cs)"
proof -
  have "distinct (map fst (map (\<lambda>c. (PInt (c_id c), PStr (c_type c))) cs))"
    using assms by (simp add: comp_def distinct_map inj_on_def)
  then show ?thesis
    unfolding category_dict_def by (rule dict_comp_distinct)
qed

lemma distinct_order_by_cid:
  "distinct (map c_id cs) \<Longrightarrow> distinct (map c_id (order_by_cid cs))"
proof -
  assume d: "distinct (map c_id cs)"
  have "mset (map c_id (order_by_cid cs)) = mset (map c_id cs)"
    by (simp add: order_by_cid_def)
  then show ?thesis using d by (metis mset_eq_imp_distinct_iff)
qed

subsection \<open>Category listing\<close>

text \<open>
  C8. \<^verbatim>\<open>GET /categories\<close> answers 404 (the Not Found envelope) if and only if the category
  table has no row. Otherwise it answers 200, and, the ids being unique as a primary key is,
  the \<^verbatim>\<open>categories\<close> field maps each category id to its type, one entry per row of the
  table, in ascending id order.
\<close>

theorem get_categories_cases:
  "(respond (get_categories d) = not_found \<longleftrightarrow> categories d = []) \<and>
   (status (respond (get_categories d)) = 404 \<longleftrightarrow> categories d = []) \<and>
   sorted (map c_id (order_by_cid (categories d))) \<and>
   mset (order_by_cid (categories d)) = mset (categories d) \<and>
   (categories d \<noteq> [] \<longrightarrow> distinct (map c_id (categories d)) \<longrightarrow>
      respond (get_categories d) =
        \<lparr>status = 200,
         payload = PDict [(PStr ''success'', PBool True),
                          (PStr ''categories'',
                           PDict (map (\<lambda>c. (PInt (c_id c), PStr (c_type c)))
                                      (order_by_cid (categories d))))]\<rparr>)"
proof -
  have e: "order_by_cid (categories d) = [] \<longleftrightarrow> categories d = []"
    by (metis order_by_cid_def length_sort length_0_conv)
  have a: "respond (get_categories d) = not_found \<longleftrightarrow> categories d = []"
    using e by (simp add: get_categories_def Let_def not_found_def error_envelope_def)
  have b: "status (respond (get_categories d)) = 404 \<longleftrightarrow> categories d = []"
    using e by (simp add: get_categories_def Let_def not_found_def error_envelope_def)
  have c: "sorted (map c_id (order_by_cid (categories d)))"
    by (simp add: order_by_cid_def)
  have m: "mset (order_by_cid (categories d)) = mset (categories d)"
    by (simp add: order_by_cid_def)
  have f: "respond (get_categories d) =
        \<lparr>status = 200,
         payload = PDict [(PStr ''success'', PBool True),
                          (PStr ''categories'',
                           PDict (map (\<lambda>c. (PInt (c_id c), PStr (c_type c)))
                                      (order_by_cid (categories d))))]\<rparr>"
    if "categories d \<noteq> []" "distinct (map c_id (categories d))"
    using that e category_dict_distinct [OF distinct_order_by_cid [OF that(2)]]
    by (simp add: get_categories_def Let_def)
  from a b c m f show ?thesis by blast
qed

theorem get_categories_cases_witness:
  "categories db3 \<noteq> [] \<and> distinct (map c_id (categories db3)) \<and>
   respond (get_categories db3) =
     \<lparr>status = 200,
      payload = PDict [(PStr ''success'', PBool True),
                       (PStr ''categories'',
                        PDict [(PInt 1, PStr ''Science''), (PInt 2, PStr ''Art'')])]\<rparr> \<and>
   respond (get_categories db_no_categories) = not_found"
proof -
  have h1: "categories db3 \<noteq> []" by (simp add: db3_def)
  have h2: "distinct (map c_id (categories db3))" by (simp add: db3_def cat1_def cat2_def)
  have s: "order_by_cid (categories db3) = [cat1, cat2]"
    by (simp add: order_by_cid_def db3_def cat1_def cat2_def)
  have e: "categories db_no_categories = []" by (simp add: db_no_categories_def)
  from get_categories_cases [of db3] h1 h2
  have "respond (get_categories db3) =
        \<lparr>status = 200,
         payload = PDict [(PStr ''success'', PBool True),
                          (PStr ''categories'',
                           PDict (map (\<lambda>c. (PInt (c_id c), PStr (c_type c)))
                                      (order_by_cid (categories db3))))]\<rparr>" by blast
  moreover from get_categories_cases [of db_no_categories] e
  have "respond (get_categories db_no_categories) = not_found" by blast
  ultimately show ?thesis using h1 h2 s by (simp add: cat1_def cat2_def)
qed

subsection \<open>Question listing\<close>

lemma questions_page_error: "questions_page P args d = Inl e \<Longrightarrow> e = DataError"
  by (simp add: questions_page_def Let_def limit_offset_def split: if_splits)

lemma status_envelopes:
  "status bad_request = 400" "status not_found = 404"
  "status unprocessable_entity = 422" "status internal_server_error = 500"
  by (simp_all add: bad_request_def not_found_def unprocessable_entity_def
      internal_server_error_def error_envelope_def)

lemma get_questions_of_page:
  "questions_page P args d = Inr pg \<Longrightarrow>
   get_questions P args d =
     (if pg = [] then Inl (HTTPException 404)
      else Inr (PDict [(PStr ''success'', PBool True),
                       (PStr ''questions'', PList (map question_format pg)),
                       (PStr ''total_questions'', PInt (int (length (questions d)))),
                       (PStr ''categories'', category_dict (order_by_cid (categories d))),
                       (PStr ''current_category'', PNone)]))"
  by (simp add: get_questions_def Let_def)

lemma args22:
  "args_get ref_platform [''page'' \<mapsto> ''2'', ''limit'' \<mapsto> ''2''] ''limit'' 10 = 2"
  "args_get ref_platform [''page'' \<mapsto> ''2'', ''limit'' \<mapsto> ''2''] ''page'' 1 = 2"
  by (simp_all add: args_get_def ref_platform_def dec_int_def digit_of_def)

lemma order_db3: "order_by_id (questions db3) = [q1, q2, q3]"
  by (simp add: order_by_id_def db3_def q1_def q2_def q3_def)

text \<open>
  C1, as the claim states it, fails: it promises a page or a 404 for every \<^verbatim>\<open>limit\<close> and
  \<^verbatim>\<open>page\<close>. For \<^verbatim>\<open>page=0\<close> (and the default limit 10) the offset is -10, the storage
  engine refuses the query with a DataError, nothing in \<^verbatim>\<open>get_questions\<close> catches it, and
  the answer is the 500 envelope.
\<close>

theorem get_questions_page_zero:
  "questions_page ref_platform [''page'' \<mapsto> ''0''] db3 = Inl DataError \<and>
   respond (get_questions ref_platform [''page'' \<mapsto> ''0''] db3) = internal_server_error \<and>
   status (respond (get_questions ref_platform [''page'' \<mapsto> ''0''] db3)) = 500"
proof -
  have l: "args_get ref_platform [''page'' \<mapsto> ''0''] ''limit'' 10 = 10"
    by (simp add: args_get_def)
  have p: "args_get ref_platform [''page'' \<mapsto> ''0''] ''page'' 1 = 0"
    by (simp add: args_get_def ref_platform_def dec_int_def digit_of_def)
  have q: "questions_page ref_platform [''page'' \<mapsto> ''0''] db3 = Inl DataError"
    by (simp add: questions_page_def Let_def l p limit_offset_def pg_row_count_def)
  then have g: "get_questions ref_platform [''page'' \<mapsto> ''0''] db3 = Inl DataError"
    by (simp add: get_questions_def)
  from q g show ?thesis by (simp add: status_envelopes)
qed

text \<open>
  C1, amended. Let \<open>limit\<close> and \<open>page\<close> be the parameters read with their defaults 10 and 1,
  and let the engine accept \<open>limit\<close> and the offset \<open>(page - 1) * limit\<close> as row counts
  (neither negative, both below \<open>2^63\<close>). The questions in id order are a sorted rearrangement
  of the table; the page holds the rows of that order from the offset on, \<open>limit\<close> of them or
  as many as are left; it is empty exactly when \<open>limit\<close> is 0 or the offset is at or beyond
  the number of questions; the answer is 404 exactly for an empty page, and otherwise 200 with
  the formatted page, the number of all questions, the category dictionary and a null
  current category.
\<close>

theorem get_questions_page:
  assumes "limit = args_get P args ''limit'' 10"
    and "page = args_get P args ''page'' 1"
    and "pg_row_count limit" and "pg_row_count ((page - 1) * limit)"
    and "srt = order_by_id (questions d)"
    and "pg = take (nat limit) (drop (nat ((page - 1) * limit)) srt)"
  shows "sorted (map q_id srt) \<and> mset srt = mset (questions d) \<and>
         length pg = min (nat limit) (length (questions d) - nat ((page - 1) * limit)) \<and>
         (\<forall>i<length pg. pg ! i = srt ! (nat ((page - 1) * limit) + i)) \<and>
         (pg = [] \<longleftrightarrow> limit = 0 \<or> int (length (questions d)) \<le> (page - 1) * limit) \<and>
         respond (get_questions P args d) =
           (if pg = [] then not_found
            else \<lparr>status = 200,
                  payload = PDict [(PStr ''success'', PBool True),
                       (PStr ''questions'', PList (map question_format pg)),
                       (PStr ''total_questions'', PInt (int (length (questions d)))),
                       (PStr ''categories'', category_dict (order_by_cid (categories d))),
                       (PStr ''current_category'', PNone)]\<rparr>)"
proof -
  have len: "length srt = length (questions d)"
    using assms(5) by (simp add: order_by_id_def)
  have s1: "sorted (map q_id srt)" using assms(5) by (simp add: order_by_id_def)
  have s2: "mset srt = mset (questions d)" using assms(5) by (simp add: order_by_id_def)
  have s3: "length pg = min (nat limit) (length (questions d) - nat ((page - 1) * limit))"
    using assms(6) len by (simp add: min.commute)
  have s4: "\<forall>i<length pg. pg ! i = srt ! (nat ((page - 1) * limit) + i)"
  proof (intro allI impI)
    fix i assume "i < length pg"
    then have i: "i < nat limit" "i < length srt - nat ((page - 1) * limit)"
      using assms(6) by simp_all
    then have "nat ((page - 1) * limit) \<le> length srt" by simp
    then show "pg ! i = srt ! (nat ((page - 1) * limit) + i)"
      using assms(6) i by simp
  qed
  have s5: "pg = [] \<longleftrightarrow> limit = 0 \<or> int (length (questions d)) \<le> (page - 1) * limit"
  proof -
    have "pg = [] \<longleftrightarrow> nat limit = 0 \<or> length srt \<le> nat ((page - 1) * limit)"
      using assms(6) by (simp add: take_eq_Nil)
    also have "\<dots> \<longleftrightarrow> limit = 0 \<or> int (length (questions d)) \<le> (page - 1) * limit"
      using assms(3,4) len by (auto simp: pg_row_count_def)
    finally show ?thesis .
  qed
  have q: "questions_page P args d = Inr pg"
    using assms by (simp add: questions_page_def Let_def limit_offset_def)
  have s6: "respond (get_questions P args d) =
           (if pg = [] then not_found
            else \<lparr>status = 200,
                  payload = PDict [(PStr ''success'', PBool True),
                       (PStr ''questions'', PList (map question_format pg)),
                       (PStr ''total_questions'', PInt (int (length (questions d)))),
                       (PStr ''categories'', category_dict (order_by_cid (categories d))),
                       (PStr ''current_category'', PNone)]\<rparr>)"
    by (simp add: get_questions_of_page [OF q])
  from s1 s2 s3 s4 s5 s6 show ?thesis by blast
qed

theorem get_questions_page_witness:
  "pg_row_count 2 \<and> pg_row_count ((2 - 1) * 2) \<and>
   respond (get_questions ref_platform [''page'' \<mapsto> ''2'', ''limit'' \<mapsto> ''2''] db3) =
     \<lparr>status = 200,
      payload = PDict [(PStr ''success'', PBool True),
                       (PStr ''questions'', PList [question_format q3]),
                       (PStr ''total_questions'', PInt 3),
                       (PStr ''categories'', category_dict (order_by_cid (categories db3))),
                       (PStr ''current_category'', PNone)]\<rparr>"
proof -
  have h3: "pg_row_count 2" by (simp add: pg_row_count_def)
  have h4: "pg_row_count ((2 - 1) * 2)" by (simp add: pg_row_count_def)
  have pg: "[q3] = take (nat 2) (drop (nat ((2 - 1) * 2)) [q1, q2, q3])" by simp
  have n: "int (length (questions db3)) = 3" by (simp add: db3_def)
  from get_questions_page [of 2 ref_platform "[''page'' \<mapsto> ''2'', ''limit'' \<mapsto> ''2'']" 2
      "[q1, q2, q3]" db3 "[q3]", OF args22(1) [symmetric] args22(2) [symmetric] h3 h4
      order_db3 [symmetric] pg]
  show ?thesis using h3 h4 n by simp
qed

text \<open>
  C10. Whenever the selected page of questions is not empty, \<^verbatim>\<open>GET /questions\<close> answers
  200, also with an empty category table, in which case the \<^verbatim>\<open>categories\<close> field is the
  empty dictionary. The handler never looks at the number of categories: in every state and
  for all parameters it answers 404 exactly when the page query returns no row.
\<close>

theorem get_questions_without_categories:
  assumes "questions_page P args d = Inr pg" and "pg \<noteq> []"
  shows "status (respond (get_questions P args d)) = 200 \<and>
         (categories d = [] \<longrightarrow>
            payload (respond (get_questions P args d)) =
              PDict [(PStr ''success'', PBool True),
                     (PStr ''questions'', PList (map question_format pg)),
                     (PStr ''total_questions'', PInt (int (length (questions d)))),
                     (PStr ''categories'', PDict []),
                     (PStr ''current_category'', PNone)]) \<and>
         (\<forall>args' d'. status (respond (get_questions P args' d')) = 404 \<longleftrightarrow>
                      questions_page P args' d' = Inr [])"
proof -
  have a: "status (respond (get_questions P args d)) = 200"
    using assms by (simp add: get_questions_of_page)
  have e: "category_dict (order_by_cid []) = PDict []"
    by (simp add: category_dict_def order_by_cid_def dict_comp_def)
  have b: "categories d = [] \<longrightarrow>
            payload (respond (get_questions P args d)) =
              PDict [(PStr ''success'', PBool True),
                     (PStr ''questions'', PList (map question_format pg)),
                     (PStr ''total_questions'', PInt (int (length (questions d)))),
                     (PStr ''categories'', PDict []),
                     (PStr ''current_category'', PNone)]"
    using assms e by (simp add: get_questions_of_page)
  have c: "status (respond (get_questions P args' d')) = 404 \<longleftrightarrow>
                      questions_page P args' d' = Inr []" for args' d'
  proof (cases "questions_page P args' d'")
    case (Inl e)
    then have "e = DataError" by (rule questions_page_error)
    with Inl show ?thesis by (simp add: get_questions_def status_envelopes)
  next
    case (Inr qs)
    then show ?thesis by (simp add: get_questions_of_page status_envelopes)
  qed
  from a b c show ?thesis by blast
qed

theorem get_questions_without_categories_witness:
  "questions_page ref_platform Map.empty db_no_categories = Inr [q1] \<and>
   categories db_no_categories = [] \<and>
   status (respond (get_questions ref_platform Map.empty db_no_categories)) = 200 \<and>
   payload (respond (get_questions ref_platform Map.empty db_no_categories)) =
     PDict [(PStr ''success'', PBool True),
            (PStr ''questions'', PList [question_format q1]),
            (PStr ''total_questions'', PInt 1),
            (PStr ''categories'', PDict []),
            (PStr ''current_category'', PNone)]"
proof -
  have h1: "questions_page ref_platform Map.empty db_no_categories = Inr [q1]"
    by (simp add: questions_page_def Let_def args_get_def limit_offset_def pg_row_count_def
        order_by_id_def db_no_categories_def)
  have h2: "[q1] \<noteq> []" by simp
  have h3: "categories db_no_categories = []" by (simp add: db_no_categories_def)
  have n: "int (length (questions db_no_categories)) = 1" by (simp add: db_no_categories_def)
  from get_questions_without_categories [OF h1 h2] h1 h3 n show ?thesis by simp
qed

subsection \<open>Questions of a category\<close>

text \<open>
  C7. \<^verbatim>\<open>GET /categories/<category_id>/questions\<close>: when the storage engine refuses to read
  the path value as an integer, the answer is the 400 envelope. When it reads it as the
  integer \<open>c\<close>, the answer is 200 with exactly the questions whose category is \<open>c\<close>, their
  number as \<^verbatim>\<open>total_questions\<close>, and the path value itself as \<^verbatim>\<open>current_category\<close>.
\<close>

theorem get_questions_by_category_cases:
  "(pg_integer P category_id = None \<longrightarrow>
      respond (get_questions_by_category P category_id d) = bad_request \<and>
      status (respond (get_questions_by_category P category_id d)) = 400) \<and>
   (\<forall>c. pg_integer P category_id = Some c \<longrightarrow>
      respond (get_questions_by_category P category_id d) =
        \<lparr>status = 200,
         payload = PDict [(PStr ''success'', PBool True),
                          (PStr ''questions'',
                           PList (map question_format
                                      (filter (\<lambda>q. q_category q = c) (questions d)))),
                          (PStr ''total_questions'',
                           PInt (int (length (filter (\<lambda>q. q_category q = c) (questions d))))),
                          (PStr ''current_category'', PStr category_id)]\<rparr> \<and>
      set (filter (\<lambda>q. q_category q = c) (questions d)) =
        {q \<in> set (questions d). q_category q = c})"
  by (simp add: get_questions_by_category_def get_questions_by_category_try_def Let_def
      status_envelopes)

theorem get_questions_by_category_cases_witness:
  "pg_integer ref_platform ''1'' = Some 1 \<and>
   pg_integer ref_platform ''one'' = None \<and>
   respond (get_questions_by_category ref_platform ''1'' db3) =
     \<lparr>status = 200,
      payload = PDict [(PStr ''success'', PBool True),
                       (PStr ''questions'', PList [question_format q1, question_format q3]),
                       (PStr ''total_questions'', PInt 2),
                       (PStr ''current_category'', PStr ''1'')]\<rparr> \<and>
   respond (get_questions_by_category ref_platform ''one'' db3) = bad_request"
proof -
  have h1: "pg_integer ref_platform ''1'' = Some 1"
    by (simp add: ref_platform_def ref_integer_def dec_int_def digit_of_def)
  have h2: "pg_integer ref_platform ''one'' = None"
    by (simp add: ref_platform_def ref_integer_def dec_int_def digit_of_def)
  have f: "filter (\<lambda>q. q_category q = 1) (questions db3) = [q1, q3]"
    by (simp add: db3_def q1_def q2_def q3_def)
  from get_questions_by_category_cases [of ref_platform "''1''" db3] h1 f
  have a: "respond (get_questions_by_category ref_platform ''1'' db3) =
     \<lparr>status = 200,
      payload = PDict [(PStr ''success'', PBool True),
                       (PStr ''questions'', PList [question_format q1, question_format q3]),
                       (PStr ''total_questions'', PInt 2),
                       (PStr ''current_category'', PStr ''1'')]\<rparr>" by simp
  from get_questions_by_category_cases [of ref_platform "''one''" db3] h2
  have b: "respond (get_questions_by_category ref_platform ''one'' db3) = bad_request"
    by simp
  from h1 h2 a b show ?thesis by simp
qed

subsection \<open>Question deletion\<close>

lemma find_id_None: "find (\<lambda>q. q_id q = i) qs = None \<longleftrightarrow> i \<notin> q_id ` set qs"
  by (induction qs) auto

lemma find_id_Some: "find (\<lambda>q. q_id q = i) qs = Some q \<Longrightarrow> q_id q = i \<and> q \<in> set qs"
  by (induction qs) (auto split: if_splits)

lemma filter_other_ids_absent:
  "i \<notin> q_id ` set qs \<Longrightarrow> filter (\<lambda>q. q_id q \<noteq> i) qs = qs"
  by (induction qs) auto

lemma length_filter_other_ids:
  "distinct (map q_id qs) \<Longrightarrow> i \<in> q_id ` set qs \<Longrightarrow>
   length (filter (\<lambda>q. q_id q \<noteq> i) qs) + 1 = length qs"
proof (induction qs)
  case Nil
  then show ?case by simp
next
  case (Cons q qs)
  show ?case
  proof (cases "q_id q = i")
    case True
    with Cons.prems(1) have "i \<notin> q_id ` set qs" by auto
    then have "filter (\<lambda>q. q_id q \<noteq> i) qs = qs" by (rule filter_other_ids_absent)
    with True show ?thesis by simp
  next
    case False
    with Cons.prems have "distinct (map q_id qs)" "i \<in> q_id ` set qs" by auto
    from Cons.IH [OF this] False show ?thesis by simp
  qed
qed


lemma delete_question_refused:
  "pg_integer P s = None \<Longrightarrow> delete_question P s d = (Inl (HTTPException 400), d)"
  by (simp add: delete_question_def delete_question_try_def query_get_def)

lemma delete_question_missing:
  assumes "pg_integer P s = Some i" and "i \<notin> q_id ` set (questions d)"
  shows "delete_question P s d = (Inl (HTTPException 404), d)"
proof -
  from assms(2) have "find (\<lambda>q. q_id q = i) (questions d) = None"
    using find_id_None [of i "questions d"] by blast
  with assms(1) show ?thesis
    by (simp add: delete_question_def delete_question_try_def query_get_def)
qed

lemma delete_question_found:
  assumes "pg_integer P s = Some i" and "i \<in> q_id ` set (questions d)"
  shows "delete_question P s d =
           (Inr (PDict [(PStr ''success'', PBool True), (PStr ''deleted'', PStr s)]),
            d\<lparr>questions := filter (\<lambda>q. q_id q \<noteq> i) (questions d)\<rparr>)"
proof (cases "find (\<lambda>q. q_id q = i) (questions d)")
  case None
  then have "i \<notin> q_id ` set (questions d)"
    using find_id_None [of i "questions d"] by blast
  with assms(2) show ?thesis by simp
next
  case (Some q)
  from find_id_Some [OF Some] have i: "q_id q = i" by (rule conjunct1)
  have g: "query_get P d s = Inr (Some q)"
    unfolding query_get_def using Some assms(1) by simp
  have t: "delete_question_try P s d =
             (Inr (PDict [(PStr ''success'', PBool True), (PStr ''deleted'', PStr s)]),
              question_delete q d)"
    unfolding delete_question_try_def g by simp
  show ?thesis
    unfolding delete_question_def t question_delete_def i by simp
qed

text \<open>
  C5. \<^verbatim>\<open>DELETE /questions/<question_id>\<close>: a path value the storage engine does not read
  as an integer gives the 400 envelope and leaves the state alone; one it reads as an id
  that no question has gives the 404 envelope and leaves the state alone; one it reads as
  the id of a question gives 200 with the path value as received, as text, in
  \<^verbatim>\<open>deleted\<close>, and (ids being unique) the state afterwards holds the other questions, one
  fewer than before, the categories untouched, so that the same request on it gives 404.
\<close>

theorem delete_question_cases:
  "(pg_integer P s = None \<longrightarrow>
      delete_question P s d = (Inl (HTTPException 400), d) \<and>
      respond (fst (delete_question P s d)) = bad_request) \<and>
   (\<forall>i. pg_integer P s = Some i \<longrightarrow> i \<notin> q_id ` set (questions d) \<longrightarrow>
      delete_question P s d = (Inl (HTTPException 404), d) \<and>
      respond (fst (delete_question P s d)) = not_found) \<and>
   (\<forall>i d'. pg_integer P s = Some i \<longrightarrow> i \<in> q_id ` set (questions d) \<longrightarrow>
      distinct (map q_id (questions d)) \<longrightarrow> d' = snd (delete_question P s d) \<longrightarrow>
      respond (fst (delete_question P s d)) =
        \<lparr>status = 200,
         payload = PDict [(PStr ''success'', PBool True), (PStr ''deleted'', PStr s)]\<rparr> \<and>
      questions d' = filter (\<lambda>q. q_id q \<noteq> i) (questions d) \<and>
      length (questions d') + 1 = length (questions d) \<and>
      categories d' = categories d \<and>
      delete_question P s d' = (Inl (HTTPException 404), d') \<and>
      respond (fst (delete_question P s d')) = not_found)"
proof -
  have a: "delete_question P s d = (Inl (HTTPException 400), d) \<and>
      respond (fst (delete_question P s d)) = bad_request" if "pg_integer P s = None"
    using delete_question_refused [OF that] by simp
  have b: "delete_question P s d = (Inl (HTTPException 404), d) \<and>
      respond (fst (delete_question P s d)) = not_found"
    if "pg_integer P s = Some i" "i \<notin> q_id ` set (questions d)" for i
    using delete_question_missing [OF that] by simp
  have c: "respond (fst (delete_question P s d)) =
        \<lparr>status = 200,
         payload = PDict [(PStr ''success'', PBool True), (PStr ''deleted'', PStr s)]\<rparr> \<and>
      questions d' = filter (\<lambda>q. q_id q \<noteq> i) (questions d) \<and>
      length (questions d') + 1 = length (questions d) \<and>
      categories d' = categories d \<and>
      delete_question P s d' = (Inl (HTTPException 404), d') \<and>
      respond (fst (delete_question P s d')) = not_found"
    if h: "pg_integer P s = Some i" "i \<in> q_id ` set (questions d)"
      "distinct (map q_id (questions d))" "d' = snd (delete_question P s d)" for i d'
  proof -
    note f = delete_question_found [OF h(1,2)]
    have d': "d' = d\<lparr>questions := filter (\<lambda>q. q_id q \<noteq> i) (questions d)\<rparr>"
      using f h(4) by simp
    have gone: "i \<notin> q_id ` set (questions d')" using d' by auto
    have again: "delete_question P s d' = (Inl (HTTPException 404), d')"
      by (rule delete_question_missing [OF h(1) gone])
    have len: "length (questions d') + 1 = length (questions d)"
      using length_filter_other_ids [OF h(3) h(2)] d' by simp
    from f d' again len show ?thesis by simp
  qed
  from a b c show ?thesis by blast
qed

theorem delete_question_cases_witness:
  "pg_integer ref_platform ''a'' = None \<and>
   respond (fst (delete_question ref_platform ''a'' db3)) = bad_request \<and>
   pg_integer ref_platform ''7'' = Some 7 \<and> 7 \<notin> q_id ` set (questions db3) \<and>
   respond (fst (delete_question ref_platform ''7'' db3)) = not_found \<and>
   pg_integer ref_platform ''2'' = Some 2 \<and> 2 \<in> q_id ` set (questions db3) \<and>
   distinct (map q_id (questions db3)) \<and>
   respond (fst (delete_question ref_platform ''2'' db3)) =
     \<lparr>status = 200,
      payload = PDict [(PStr ''success'', PBool True), (PStr ''deleted'', PStr ''2'')]\<rparr> \<and>
   length (questions (snd (delete_question ref_platform ''2'' db3))) + 1 = 3 \<and>
   respond (fst (delete_question ref_platform ''2''
                   (snd (delete_question ref_platform ''2'' db3)))) = not_found"
proof -
  have a: "pg_integer ref_platform ''a'' = None"
    by (simp add: ref_platform_def ref_integer_def dec_int_def digit_of_def)
  have b: "pg_integer ref_platform ''7'' = Some 7"
    by (simp add: ref_platform_def ref_integer_def dec_int_def digit_of_def)
  have b': "7 \<notin> q_id ` set (questions db3)" by (simp add: db3_def q1_def q2_def q3_def)
  have c: "pg_integer ref_platform ''2'' = Some 2"
    by (simp add: ref_platform_def ref_integer_def dec_int_def digit_of_def)
  have c': "2 \<in> q_id ` set (questions db3)" by (simp add: db3_def q1_def q2_def q3_def)
  have c'': "distinct (map q_id (questions db3))" by (simp add: db3_def q1_def q2_def q3_def)
  have n: "length (questions db3) = 3" by (simp add: db3_def)
  from delete_question_cases [of ref_platform "''a''" db3] a
  have r1: "respond (fst (delete_question ref_platform ''a'' db3)) = bad_request" by simp
  from delete_question_cases [of ref_platform "''7''" db3] b b'
  have r2: "respond (fst (delete_question ref_platform ''7'' db3)) = not_found" by simp
  from delete_question_cases [of ref_platform "''2''" db3] c c' c''
  have r3: "respond (fst (delete_question ref_platform ''2'' db3)) =
     \<lparr>status = 200,
      payload = PDict [(PStr ''success'', PBool True), (PStr ''deleted'', PStr ''2'')]\<rparr> \<and>
   length (questions (snd (delete_question ref_platform ''2'' db3))) + 1 =
     length (questions db3) \<and>
   respond (fst (delete_question ref_platform ''2''
                   (snd (delete_question ref_platform ''2'' db3)))) = not_found"
    by blast
  from a b b' c c' c'' r1 r2 r3 n show ?thesis by simp
qed

subsection \<open>Quiz play\<close>

lemma int_items_ints: "int_items (map PInt ids) = Some ids"
  by (induction ids) simp_all

lemma notin_ids_ints: "notin_ids P (PList (map PInt ids)) = Inr ids"
  by (simp add: int_items_ints)

lemma mod_index_int: "int r mod int n = int (r mod n)"
  by (simp add: zmod_int)

lemma quiz_candidates_filter:
  "quiz_candidates c ids d =
     filter (\<lambda>q. q_id q \<notin> set ids \<and> (c = 0 \<or> q_category q = c)) (questions d)"
  by (simp add: quiz_candidates_def)

lemma randrange_index:
  "qs \<noteq> [] \<Longrightarrow> randrange r 0 (int (length qs)) = Inr (int (r mod length qs))"
  by (simp add: randrange_def zmod_int)

lemma py_index_mod: "qs \<noteq> [] \<Longrightarrow> py_index qs (int (r mod length qs)) = Inr (qs ! (r mod length qs))"
  by (simp add: py_index_def)

lemma play_quiz_try_wellformed:
  assumes "subscript body ''previous_questions'' = Inr (PList (map PInt ids))"
    and "subscript body ''quiz_category'' = Inr quiz_category"
    and "py_get quiz_category ''id'' = Inr idv"
    and "int_of P idv = Inr c"
  shows "play_quiz_try P r body d =
           (if quiz_candidates c ids d = [] then Inl ValueError
            else Inr (PDict [(PStr ''success'', PBool True),
                             (PStr ''question'',
                              question_format (quiz_candidates c ids d !
                                 (r mod length (quiz_candidates c ids d))))]))"
proof (cases "quiz_candidates c ids d = []")
  case True
  with assms show ?thesis
    by (simp add: play_quiz_try_def notin_ids_ints randrange_def del: notin_ids.simps)
next
  case False
  with assms show ?thesis
    by (simp add: play_quiz_try_def notin_ids_ints randrange_index py_index_mod Let_def
        del: notin_ids.simps)
qed

lemma question_format_inj: "question_format q = question_format q' \<Longrightarrow> q = q'"
  by (cases q, cases q') (simp add: question_format_def)

lemma distinct_candidates:
  "distinct (map q_id qs) \<Longrightarrow> distinct (filter p qs)"
  by (simp add: distinct_map)

lemma card_index_of:
  assumes "distinct xs" and "x \<in> set xs"
  shows "card {k. k < length xs \<and> xs ! k = x} = 1"
proof -
  from assms obtain i where i: "i < length xs" "xs ! i = x"
    by (auto simp: in_set_conv_nth)
  have "{k. k < length xs \<and> xs ! k = x} = {i}"
    using assms(1) i by (auto simp: nth_eq_iff_index_eq)
  then show ?thesis by simp
qed

text \<open>
  C9. A well-formed quiz request (a list of integer ids and a category object whose
  \<^verbatim>\<open>id\<close> converts to the integer \<open>c\<close>) with no candidate left, that is no question whose
  id is outside the previous ones and, for \<open>c\<close> other than 0, whose category is \<open>c\<close>: the
  draw from the empty range raises ValueError, neither \<^verbatim>\<open>except\<close> clause catches it, and
  the answer is the 500 envelope with \<^verbatim>\<open>success\<close> false and the message
  \<^verbatim>\<open>Internal Server Error\<close>.
\<close>

theorem play_quiz_no_candidates:
  assumes "subscript body ''previous_questions'' = Inr (PList (map PInt ids))"
    and "subscript body ''quiz_category'' = Inr quiz_category"
    and "py_get quiz_category ''id'' = Inr idv"
    and "int_of P idv = Inr c"
    and "filter (\<lambda>q. q_id q \<notin> set ids \<and> (c = 0 \<or> q_category q = c)) (questions d) = []"
  shows "play_quiz P r body d = Inl ValueError \<and>
         respond (play_quiz P r body d) =
           \<lparr>status = 500,
            payload = PDict [(PStr ''success'', PBool False),
                             (PStr ''error'', PInt 500),
                             (PStr ''message'', PStr ''Internal Server Error'')]\<rparr>"
proof -
  have "quiz_candidates c ids d = []"
    using assms(5) by (simp only: quiz_candidates_filter)
  then have "play_quiz_try P r body d = Inl ValueError"
    by (simp add: play_quiz_try_wellformed [OF assms(1-4)])
  then show ?thesis
    by (simp add: play_quiz_def internal_server_error_def error_envelope_def)
qed

theorem play_quiz_no_candidates_witness:
  "filter (\<lambda>q. q_id q \<notin> set [1, 3] \<and> ((1::int) = 0 \<or> q_category q = 1)) (questions db3) = [] \<and>
   play_quiz ref_platform 7 (quiz_request [1, 3] (PInt 1)) db3 = Inl ValueError \<and>
   status (respond (play_quiz ref_platform 7 (quiz_request [1, 3] (PInt 1)) db3)) = 500"
proof -
  have h1: "subscript (quiz_request [1, 3] (PInt 1)) ''previous_questions'' =
              Inr (PList (map PInt [1, 3]))"
    by (simp add: quiz_request_def)
  have h2: "subscript (quiz_request [1, 3] (PInt 1)) ''quiz_category'' =
              Inr (PDict [(PStr ''type'', PStr ''Science''), (PStr ''id'', PInt 1)])"
    by (simp add: quiz_request_def)
  have h3: "py_get (PDict [(PStr ''type'', PStr ''Science''), (PStr ''id'', PInt 1)]) ''id'' =
              Inr (PInt 1)"
    by simp
  have h4: "int_of ref_platform (PInt 1) = Inr 1" by simp
  have h5: "filter (\<lambda>q. q_id q \<notin> set [1, 3] \<and> ((1::int) = 0 \<or> q_category q = 1))
              (questions db3) = []"
    by (simp add: db3_def q1_def q2_def q3_def)
  from play_quiz_no_candidates [OF h1 h2 h3 h4 h5, of 7] h5 show ?thesis
    by (simp add: status_envelopes)
qed

text \<open>The draw among the candidates, for any value of \<^verbatim>\<open>id\<close> that \<^verbatim>\<open>int\<close> converts.\<close>

lemma play_quiz_draw:
  assumes "subscript body ''previous_questions'' = Inr (PList (map PInt ids))"
    and "subscript body ''quiz_category'' = Inr quiz_category"
    and "py_get quiz_category ''id'' = Inr idv"
    and "int_of P idv = Inr c"
    and "cands = filter (\<lambda>q. q_id q \<notin> set ids \<and> (c = 0 \<or> q_category q = c)) (questions d)"
    and "cands \<noteq> []"
    and "distinct (map q_id (questions d))"
  shows "play_quiz P r body d =
           Inr (PDict [(PStr ''success'', PBool True),
                       (PStr ''question'', question_format (cands ! (r mod length cands)))]) \<and>
         cands ! (r mod length cands) \<in> set cands \<and>
         (\<forall>q \<in> set cands.
            card {k. k < length cands \<and>
                     play_quiz P k body d =
                       Inr (PDict [(PStr ''success'', PBool True),
                                   (PStr ''question'', question_format q)])} = 1)"
proof -
  have cands: "quiz_candidates c ids d = cands"
    using assms(5) by (simp only: quiz_candidates_filter)
  have run: "play_quiz P k body d =
           Inr (PDict [(PStr ''success'', PBool True),
                       (PStr ''question'', question_format (cands ! (k mod length cands)))])"
    for k
    using assms(6)
    by (simp add: play_quiz_def play_quiz_try_wellformed [OF assms(1-4)] cands)
  have mem: "cands ! (r mod length cands) \<in> set cands"
    using assms(6) by simp
  have dist: "distinct cands"
    unfolding assms(5) using assms(7) by (rule distinct_candidates)
  have uni: "card {k. k < length cands \<and>
                     play_quiz P k body d =
                       Inr (PDict [(PStr ''success'', PBool True),
                                   (PStr ''question'', question_format q)])} = 1"
    if q: "q \<in> set cands" for q
  proof -
    have "{k. k < length cands \<and>
              play_quiz P k body d =
                Inr (PDict [(PStr ''success'', PBool True),
                            (PStr ''question'', question_format q)])} =
          {k. k < length cands \<and> cands ! k = q}"
      using question_format_inj by (auto simp: run)
    then show ?thesis using card_index_of [OF dist q] by simp
  qed
  from run [of r] mem uni show ?thesis by blast
qed

text \<open>
  C3. A well-formed quiz request is an object whose \<^verbatim>\<open>previous_questions\<close> is a list of
  integer ids and whose \<^verbatim>\<open>quiz_category\<close> is an object with the integer \<open>c\<close> as its
  \<^verbatim>\<open>id\<close>. Its candidates are the questions whose id is not among the previous ones, of
  category \<open>c\<close> when \<open>c\<close> is not 0 and of any category when \<open>c\<close> is 0. When there is a
  candidate, the answer is the candidate at the drawn index, so the returned question is
  always a candidate. With unique ids, each candidate is returned for exactly one of the
  \<open>length cands\<close> possible draws: a draw that is uniform over the index range, as
  \<^verbatim>\<open>random.randrange\<close> is, returns every candidate with the same probability.
\<close>

theorem play_quiz_uniform_candidate:
  assumes "map_of kvs (PStr ''previous_questions'') = Some (PList (map PInt ids))"
    and "map_of kvs (PStr ''quiz_category'') = Some (PDict cat)"
    and "map_of cat (PStr ''id'') = Some (PInt c)"
    and "cands = filter (\<lambda>q. q_id q \<notin> set ids \<and> (c = 0 \<or> q_category q = c)) (questions d)"
    and "cands \<noteq> []"
    and "distinct (map q_id (questions d))"
  shows "play_quiz P r (PDict kvs) d =
           Inr (PDict [(PStr ''success'', PBool True),
                       (PStr ''question'', question_format (cands ! (r mod length cands)))]) \<and>
         cands ! (r mod length cands) \<in> set cands \<and>
         (\<forall>q \<in> set cands.
            card {k. k < length cands \<and>
                     play_quiz P k (PDict kvs) d =
                       Inr (PDict [(PStr ''success'', PBool True),
                                   (PStr ''question'', question_format q)])} = 1)"
proof -
  have h1: "subscript (PDict kvs) ''previous_questions'' = Inr (PList (map PInt ids))"
    using assms(1) by simp
  have h2: "subscript (PDict kvs) ''quiz_category'' = Inr (PDict cat)"
    using assms(2) by simp
  have h3: "py_get (PDict cat) ''id'' = Inr (PInt c)"
    using assms(3) by simp
  have h4: "int_of P (PInt c) = Inr c" by simp
  show ?thesis
    by (rule play_quiz_draw [OF h1 h2 h3 h4 assms(4) assms(5) assms(6)])
qed

theorem play_quiz_uniform_candidate_witness:
  "[q3] = filter (\<lambda>q. q_id q \<notin> set [1] \<and> ((1::int) = 0 \<or> q_category q = 1)) (questions db3) \<and>
   [q2, q3] = filter (\<lambda>q. q_id q \<notin> set [1] \<and> ((0::int) = 0 \<or> q_category q = 0)) (questions db3) \<and>
   distinct (map q_id (questions db3)) \<and>
   play_quiz ref_platform 0 (quiz_request [1] (PInt 1)) db3 =
     Inr (PDict [(PStr ''success'', PBool True), (PStr ''question'', question_format q3)]) \<and>
   play_quiz ref_platform 0 (quiz_request [1] (PInt 0)) db3 =
     Inr (PDict [(PStr ''success'', PBool True), (PStr ''question'', question_format q2)]) \<and>
   play_quiz ref_platform 1 (quiz_request [1] (PInt 0)) db3 =
     Inr (PDict [(PStr ''success'', PBool True), (PStr ''question'', question_format q3)]) \<and>
   card {k. k < 2 \<and>
            play_quiz ref_platform k (quiz_request [1] (PInt 0)) db3 =
              Inr (PDict [(PStr ''success'', PBool True),
                          (PStr ''question'', question_format q2)])} = 1"
proof -
  have p: "map_of [(PStr ''previous_questions'', PList (map PInt [1])),
                   (PStr ''quiz_category'', PDict [(PStr ''type'', PStr ''Science''),
                                                   (PStr ''id'', idv)])]
             (PStr ''previous_questions'') = Some (PList (map PInt [1]))" for idv
    by simp
  have g: "map_of [(PStr ''previous_questions'', PList (map PInt [1])),
                   (PStr ''quiz_category'', PDict [(PStr ''type'', PStr ''Science''),
                                                   (PStr ''id'', idv)])]
             (PStr ''quiz_category'') =
           Some (PDict [(PStr ''type'', PStr ''Science''), (PStr ''id'', idv)])" for idv
    by simp
  have i: "map_of [(PStr ''type'', PStr ''Science''), (PStr ''id'', PInt n)] (PStr ''id'') =
           Some (PInt n)" for n
    by simp
  have c1: "[q3] = filter (\<lambda>q. q_id q \<notin> set [1] \<and> ((1::int) = 0 \<or> q_category q = 1))
              (questions db3)"
    by (simp add: db3_def q1_def q2_def q3_def)
  have c0: "[q2, q3] = filter (\<lambda>q. q_id q \<notin> set [1] \<and> ((0::int) = 0 \<or> q_category q = 0))
              (questions db3)"
    by (simp add: db3_def q1_def q2_def q3_def)
  have n1: "[q3] \<noteq> []" and n0: "[q2, q3] \<noteq> []" by simp_all
  have u: "distinct (map q_id (questions db3))" by (simp add: db3_def q1_def q2_def q3_def)
  have x0: "[q3] ! (0 mod length [q3]) = q3" by simp
  have y0: "[q2, q3] ! (0 mod length [q2, q3]) = q2" by simp
  have y1: "[q2, q3] ! (1 mod length [q2, q3]) = q3"
    by (simp add: numeral_2_eq_2 [symmetric])
  have a: "play_quiz ref_platform 0 (quiz_request [1] (PInt 1)) db3 =
     Inr (PDict [(PStr ''success'', PBool True), (PStr ''question'', question_format q3)])"
    using play_quiz_uniform_candidate [OF p g i c1 n1 u, of ref_platform 0]
    unfolding x0 quiz_request_def by (rule conjunct1)
  have b0: "play_quiz ref_platform 0 (quiz_request [1] (PInt 0)) db3 =
     Inr (PDict [(PStr ''success'', PBool True), (PStr ''question'', question_format q2)])"
    using play_quiz_uniform_candidate [OF p g i c0 n0 u, of ref_platform 0]
    unfolding y0 quiz_request_def by (rule conjunct1)
  have b1: "play_quiz ref_platform 1 (quiz_request [1] (PInt 0)) db3 =
     Inr (PDict [(PStr ''success'', PBool True), (PStr ''question'', question_format q3)])"
    using play_quiz_uniform_candidate [OF p g i c0 n0 u, of ref_platform 1]
    unfolding y1 quiz_request_def by (rule conjunct1)
  from play_quiz_uniform_candidate [OF p g i c0 n0 u, of ref_platform 0]
  have "\<forall>q \<in> set [q2, q3].
     card {k. k < length [q2, q3] \<and>
              play_quiz ref_platform k (quiz_request [1] (PInt 0)) db3 =
                Inr (PDict [(PStr ''success'', PBool True),
                            (PStr ''question'', question_format q)])} = 1"
    unfolding quiz_request_def by (rule conjunct2 [THEN conjunct2])
  then have d: "card {k. k < 2 \<and>
            play_quiz ref_platform k (quiz_request [1] (PInt 0)) db3 =
              Inr (PDict [(PStr ''success'', PBool True),
                          (PStr ''question'', question_format q2)])} = 1"
    by (simp add: numeral_2_eq_2 [symmetric])
  from c1 c0 u a b0 b1 d show ?thesis by blast
qed

text \<open>
  C4 names a request that the handler answers with 500, not 400: the \<^verbatim>\<open>id\<close> of the
  category is the text \<^verbatim>\<open>abc\<close>, \<^verbatim>\<open>int\<close> raises ValueError, and the handler catches
  KeyError and TypeError only.
\<close>

theorem play_quiz_text_id_500:
  "play_quiz ref_platform 0 (quiz_request [] (PStr ''abc'')) db3 = Inl ValueError \<and>
   status (respond (play_quiz ref_platform 0 (quiz_request [] (PStr ''abc'')) db3)) = 500"
proof -
  have "play_quiz ref_platform 0 (quiz_request [] (PStr ''abc'')) db3 = Inl ValueError"
    by (simp add: play_quiz_def play_quiz_try_def quiz_request_def ref_platform_def
        dec_int_def digit_of_def)
  then show ?thesis by (simp add: status_envelopes)
qed

text \<open>
  The requests that \<^verbatim>\<open>play_quiz\<close> does answer with 400: a body that lacks
  \<^verbatim>\<open>previous_questions\<close> or \<^verbatim>\<open>quiz_category\<close> (KeyError), a body that is not an object
  (TypeError), and a category object whose \<^verbatim>\<open>id\<close> is absent or null (TypeError from
  \<^verbatim>\<open>int(None)\<close>).
\<close>

theorem play_quiz_rejects:
  "(\<forall>kvs. map_of kvs (PStr ''previous_questions'') = None \<or>
          map_of kvs (PStr ''quiz_category'') = None \<longrightarrow>
       respond (play_quiz P r (PDict kvs) d) = bad_request) \<and>
   (\<forall>body. (\<forall>kvs. body \<noteq> PDict kvs) \<longrightarrow> respond (play_quiz P r body d) = bad_request) \<and>
   (\<forall>kvs prev cat. map_of kvs (PStr ''previous_questions'') = Some prev \<longrightarrow>
       map_of kvs (PStr ''quiz_category'') = Some (PDict cat) \<longrightarrow>
       map_of cat (PStr ''id'') \<in> {None, Some PNone} \<longrightarrow>
       respond (play_quiz P r (PDict kvs) d) = bad_request)"
proof -
  have a: "respond (play_quiz P r (PDict kvs) d) = bad_request"
    if "map_of kvs (PStr ''previous_questions'') = None \<or>
        map_of kvs (PStr ''quiz_category'') = None" for kvs
    using that
    by (auto simp: play_quiz_def play_quiz_try_def split: option.splits)
  have b: "respond (play_quiz P r body d) = bad_request"
    if "\<forall>kvs. body \<noteq> PDict kvs" for body
    using that by (cases body) (simp_all add: play_quiz_def play_quiz_try_def)
  have c: "respond (play_quiz P r (PDict kvs) d) = bad_request"
    if "map_of kvs (PStr ''previous_questions'') = Some prev"
      "map_of kvs (PStr ''quiz_category'') = Some (PDict cat)"
      "map_of cat (PStr ''id'') \<in> {None, Some PNone}" for kvs prev cat
    using that
    by (auto simp: play_quiz_def play_quiz_try_def)
  from a b c show ?thesis by blast
qed

theorem play_quiz_rejects_witness:
  "map_of [(PStr ''previous_questions'', PList [])] (PStr ''quiz_category'') = None \<and>
   respond (play_quiz ref_platform 0 (PDict [(PStr ''previous_questions'', PList [])]) db3) =
     bad_request \<and>
   status bad_request = 400"
proof -
  have h: "map_of [(PStr ''previous_questions'', PList [])] (PStr ''quiz_category'') = None"
    by simp
  from play_quiz_rejects [of ref_platform 0 db3] h
  have "respond (play_quiz ref_platform 0 (PDict [(PStr ''previous_questions'', PList [])]) db3) =
     bad_request" by blast
  with h show ?thesis by (simp add: status_envelopes)
qed

subsection \<open>Question creation\<close>

text \<open>
  C6 names a request that the handler answers with 500, not 400: all four fields are
  present, and the difficulty is the text \<^verbatim>\<open>abc\<close>. The storage engine refuses to store
  it in the integer column with a DataError, which \<^verbatim>\<open>create_question\<close> does not catch
  (the handlers \<^verbatim>\<open>delete_question\<close> and \<^verbatim>\<open>get_questions_by_category\<close> do). The table
  is left as it was.
\<close>

theorem create_question_text_difficulty_500:
  "create_question ref_platform (create_request (PStr ''abc'')) db3 = (Inl DataError, db3) \<and>
   status (respond (fst (create_question ref_platform (create_request (PStr ''abc'')) db3))) = 500"
proof -
  have "create_question ref_platform (create_request (PStr ''abc'')) db3 = (Inl DataError, db3)"
    by (simp add: create_question_def create_question_try_def create_request_def
        question_insert_def ref_platform_def ref_columns_def ref_integer_def dec_int_def
        digit_of_def)
  then show ?thesis by (simp add: status_envelopes)
qed

text \<open>
  The success path of \<^verbatim>\<open>create_question\<close>: when the body has the four fields and the
  storage engine accepts their values, exactly one row is appended to the question table
  (one question more), the answer carries the id the sequence generated, which no question
  had before, the categories are untouched, and the keys stay unique.
\<close>

theorem create_question_inserts:
  assumes "subscript body ''question'' = Inr new_question"
    and "subscript body ''answer'' = Inr new_answer"
    and "subscript body ''difficulty'' = Inr new_difficulty"
    and "subscript body ''category'' = Inr new_category"
    and "pg_columns P new_question new_answer new_difficulty new_category = Inr (qt, an, df, ct)"
    and "wf_db d"
    and "d' = snd (create_question P body d)"
  shows "fst (create_question P body d) =
           Inr (PDict [(PStr ''success'', PBool True), (PStr ''created'', PInt (next_id d))]) \<and>
         questions d' =
           questions d @ [\<lparr>q_id = next_id d, q_question = qt, q_answer = an,
                           q_category = ct, q_difficulty = df\<rparr>] \<and>
         length (questions d') = length (questions d) + 1 \<and>
         next_id d \<notin> q_id ` set (questions d) \<and>
         categories d' = categories d \<and>
         wf_db d'"
proof -
  have run: "create_question P body d =
      (Inr (PDict [(PStr ''success'', PBool True), (PStr ''created'', PInt (next_id d))]),
       d\<lparr>questions := questions d @ [\<lparr>q_id = next_id d, q_question = qt, q_answer = an,
                           q_category = ct, q_difficulty = df\<rparr>],
         next_id := next_id d + 1\<rparr>)"
    using assms(1-5)
    by (simp add: create_question_def create_question_try_def question_insert_def Let_def)
  have d': "d' = d\<lparr>questions := questions d @ [\<lparr>q_id = next_id d, q_question = qt,
                       q_answer = an, q_category = ct, q_difficulty = df\<rparr>],
                   next_id := next_id d + 1\<rparr>"
    using assms(7) run by simp
  have below: "\<forall>q \<in> set (questions d). q_id q < next_id d"
    using assms(6) by (simp add: wf_db_def list_all_iff)
  then have fresh: "next_id d \<notin> q_id ` set (questions d)" by auto
  have wf: "wf_db d'"
    using assms(6) below fresh unfolding d' wf_db_def list_all_iff by auto
  from run d' fresh wf show ?thesis by simp
qed

theorem create_question_inserts_witness:
  "wf_db db3 \<and>
   fst (create_question ref_platform (create_request (PInt 2)) db3) =
     Inr (PDict [(PStr ''success'', PBool True), (PStr ''created'', PInt 4)]) \<and>
   length (questions (snd (create_question ref_platform (create_request (PInt 2)) db3))) = 4"
proof -
  have h1: "subscript (create_request (PInt 2)) ''question'' = Inr (PStr ''test question'')"
    by (simp add: create_request_def)
  have h2: "subscript (create_request (PInt 2)) ''answer'' = Inr (PStr ''test answer'')"
    by (simp add: create_request_def)
  have h3: "subscript (create_request (PInt 2)) ''difficulty'' = Inr (PInt 2)"
    by (simp add: create_request_def)
  have h4: "subscript (create_request (PInt 2)) ''category'' = Inr (PInt 1)"
    by (simp add: create_request_def)
  have h5: "pg_columns ref_platform (PStr ''test question'') (PStr ''test answer'') (PInt 2)
              (PInt 1) = Inr (''test question'', ''test answer'', 2, 1)"
    by (simp add: ref_platform_def ref_columns_def)
  have h6: "wf_db db3"
    by (simp add: wf_db_def db3_def q1_def q2_def q3_def cat1_def cat2_def)
  have n: "next_id db3 = 4" "length (questions db3) = 3" by (simp_all add: db3_def)
  from create_question_inserts [OF h1 h2 h3 h4 h5 h6 refl] h6 n show ?thesis by simp
qed

text \<open>
  The requests that \<^verbatim>\<open>create_question\<close> does answer with 400, each leaving the state as it
  was: an object that lacks one of the four fields, and a body that is not an object.
  Whatever the exception, a request that fails inserts no row.
\<close>

theorem create_question_rejects:
  "(\<forall>kvs key. key \<in> {''question'', ''answer'', ''difficulty'', ''category''} \<longrightarrow>
       map_of kvs (PStr key) = None \<longrightarrow>
       create_question P (PDict kvs) d = (Inl (HTTPException 400), d)) \<and>
   (\<forall>body. (\<forall>kvs. body \<noteq> PDict kvs) \<longrightarrow>
       create_question P body d = (Inl (HTTPException 400), d)) \<and>
   (\<forall>body e. fst (create_question P body d) = Inl e \<longrightarrow>
       snd (create_question P body d) = d)"
proof -
  have a: "create_question P (PDict kvs) d = (Inl (HTTPException 400), d)"
    if "key \<in> {''question'', ''answer'', ''difficulty'', ''category''}"
      "map_of kvs (PStr key) = None" for kvs key
    using that
    by (auto simp: create_question_def create_question_try_def split: option.splits)
  have b: "create_question P body d = (Inl (HTTPException 400), d)"
    if "\<forall>kvs. body \<noteq> PDict kvs" for body
    using that by (cases body) (simp_all add: create_question_def create_question_try_def)
  have c: "snd (create_question P body d) = d"
    if "fst (create_question P body d) = Inl e" for body e
    using that
    by (auto simp: create_question_def create_question_try_def question_insert_def Let_def
        split: sum.splits prod.splits)
  from a b c show ?thesis by blast
qed

theorem create_question_rejects_witness:
  "map_of [(PStr ''question'', PStr ''q''), (PStr ''answer'', PStr ''a'')] (PStr ''difficulty'') = None \<and>
   create_question ref_platform
     (PDict [(PStr ''question'', PStr ''q''), (PStr ''answer'', PStr ''a'')]) db3 =
     (Inl (HTTPException 400), db3) \<and>
   create_question ref_platform PNone db3 = (Inl (HTTPException 400), db3)"
proof -
  have h: "map_of [(PStr ''question'', PStr ''q''), (PStr ''answer'', PStr ''a'')]
             (PStr ''difficulty'') = None" by simp
  have k: "''difficulty'' \<in> {''question'', ''answer'', ''difficulty'', ''category''}" by simp
  have n: "\<forall>kvs. PNone \<noteq> PDict kvs" by simp
  from create_question_rejects [of ref_platform db3] h k
  have a: "create_question ref_platform
     (PDict [(PStr ''question'', PStr ''q''), (PStr ''answer'', PStr ''a'')]) db3 =
     (Inl (HTTPException 400), db3)" by blast
  from create_question_rejects [of ref_platform db3] n
  have b: "create_question ref_platform PNone db3 = (Inl (HTTPException 400), db3)" by blast
  from h a b show ?thesis by blast
qed

subsection \<open>Question search\<close>

lemma lower_samples:
  "lower ''abc'' = ''abc''" "lower ''%_%'' = ''%_%''"
  "lower ''What Title?'' = ''what title?''" "lower ''50% off'' = ''50% off''"
  "lower ''_'' = ''_''"
  by code_simp+

text \<open>
  C2 names a query for which the search returns questions that do not contain it: the
  query \<^verbatim>\<open>_\<close> is a pattern for any one character, so all three questions of the sample
  state are returned, and the first of them, \<^verbatim>\<open>abc\<close>, has no underscore.
\<close>

theorem search_question_underscore:
  "search_question ref_platform (search_request ''_'') db3 =
     Inr (PDict [(PStr ''success'', PBool True),
                 (PStr ''questions'',
                  PList [question_format q2, question_format q1, question_format q3]),
                 (PStr ''total_questions'', PInt 3),
                 (PStr ''current_category'', PNone)]) \<and>
   \<not> contains_ci ''_'' (q_question q1)"
proof -
  have a: "search_question ref_platform (search_request ''_'') db3 =
     Inr (PDict [(PStr ''success'', PBool True),
                 (PStr ''questions'',
                  PList [question_format q2, question_format q1, question_format q3]),
                 (PStr ''total_questions'', PInt 3),
                 (PStr ''current_category'', PNone)])"
    by (simp add: search_question_def search_question_try_def search_request_def db3_def
        q1_def q2_def q3_def ilike_def lower_samples Let_def)
  have b: "\<not> contains_ci ''_'' (q_question q1)"
    by (simp add: contains_ci_def q1_def lower_samples sublist_code)
  from a b show ?thesis by simp
qed

lemma like_match_percent:
  "like_match (CHR ''%'' # ps) s \<longleftrightarrow> (\<exists>k\<le>length s. like_match ps (drop k s))"
proof (induction s)
  case Nil
  then show ?case by simp
next
  case (Cons c cs)
  have "(\<exists>k\<le>length (c # cs). like_match ps (drop k (c # cs))) \<longleftrightarrow>
        like_match ps (c # cs) \<or> (\<exists>k\<le>length cs. like_match ps (drop k cs))"
  proof
    assume "\<exists>k\<le>length (c # cs). like_match ps (drop k (c # cs))"
    then obtain k where k: "k \<le> length (c # cs)" "like_match ps (drop k (c # cs))" by blast
    show "like_match ps (c # cs) \<or> (\<exists>k\<le>length cs. like_match ps (drop k cs))"
    proof (cases k)
      case 0
      with k show ?thesis by simp
    next
      case (Suc k')
      with k have "k' \<le> length cs" "like_match ps (drop k' cs)" by simp_all
      then show ?thesis by blast
    qed
  next
    assume "like_match ps (c # cs) \<or> (\<exists>k\<le>length cs. like_match ps (drop k cs))"
    then show "\<exists>k\<le>length (c # cs). like_match ps (drop k (c # cs))"
    proof
      assume "like_match ps (c # cs)"
      then have "like_match ps (drop 0 (c # cs))" by simp
      then show ?thesis by blast
    next
      assume "\<exists>k\<le>length cs. like_match ps (drop k cs)"
      then obtain k where "k \<le> length cs" "like_match ps (drop k cs)" by blast
      then have "Suc k \<le> length (c # cs)" "like_match ps (drop (Suc k) (c # cs))" by simp_all
      then show ?thesis by blast
    qed
  qed
  with Cons.IH show ?case by simp
qed

lemma like_match_plain:
  "list_all plain_char p \<Longrightarrow>
   like_match (p @ rest) s \<longleftrightarrow> (\<exists>s'. s = p @ s' \<and> like_match rest s')"
proof (induction p arbitrary: s)
  case Nil
  then show ?case by simp
next
  case (Cons a p)
  from Cons.prems have pa: "plain_char a" and p: "list_all plain_char p"
    by simp_all
  from pa have a: "a \<noteq> CHR ''%''" "a \<noteq> CHR ''_''" "a \<noteq> CHR 0x5C"
    by (simp_all add: plain_char_def)
  show ?case
  proof (cases s)
    case Nil
    with a show ?thesis by simp
  next
    case (Cons c cs)
    with a Cons.IH [OF p, of cs] show ?thesis by auto
  qed
qed

lemma like_match_any: "like_match ''%'' s"
  by (induction s) simp_all

lemma like_match_contains:
  assumes "list_all plain_char q"
  shows "like_match (CHR ''%'' # q @ ''%'') s \<longleftrightarrow> sublist q s"
proof -
  have tail: "like_match (q @ ''%'') t \<longleftrightarrow> (\<exists>s'. t = q @ s')" for t
    by (simp add: like_match_plain [OF assms] like_match_any)
  have "like_match (CHR ''%'' # q @ ''%'') s \<longleftrightarrow>
        (\<exists>k\<le>length s. like_match (q @ ''%'') (drop k s))"
    by (rule like_match_percent)
  also have "\<dots> \<longleftrightarrow> (\<exists>k\<le>length s. \<exists>s'. drop k s = q @ s')"
    by (simp only: tail)
  also have "\<dots> \<longleftrightarrow> sublist q s"
  proof
    assume "\<exists>k\<le>length s. \<exists>s'. drop k s = q @ s'"
    then obtain k s' where "drop k s = q @ s'" by blast
    then have "s = take k s @ q @ s'" by (metis append_take_drop_id)
    then show "sublist q s" unfolding sublist_def by blast
  next
    assume "sublist q s"
    then obtain ps ss where s: "s = ps @ q @ ss" unfolding sublist_def by blast
    then have "length ps \<le> length s" "drop (length ps) s = q @ ss" by simp_all
    then show "\<exists>k\<le>length s. \<exists>s'. drop k s = q @ s'" by blast
  qed
  finally show ?thesis .
qed

lemma of_char_lower_char:
  "of_char (lower_char c) =
     (if 65 \<le> (of_char c :: nat) \<and> (of_char c :: nat) \<le> 90 then of_char c + 32
      else (of_char c :: nat))"
  by (simp add: lower_char_def)

lemma plain_lower_char: "plain_char c \<Longrightarrow> plain_char (lower_char c)"
proof -
  assume c: "plain_char c"
  show ?thesis
  proof (cases "65 \<le> (of_char c :: nat) \<and> (of_char c :: nat) \<le> 90")
    case True
    then have n: "(of_char (lower_char c) :: nat) = of_char c + 32"
      by (simp add: of_char_lower_char)
    have "lower_char c \<noteq> CHR ''%''" "lower_char c \<noteq> CHR ''_''" "lower_char c \<noteq> CHR 0x5C"
      using n True by auto
    then show ?thesis by (simp add: plain_char_def)
  next
    case False
    then have "lower_char c = c" by (auto simp: lower_char_def)
    with c show ?thesis by simp
  qed
qed

lemma plain_lower: "list_all plain_char q \<Longrightarrow> list_all plain_char (lower q)"
  by (induction q) (simp_all add: lower_def plain_lower_char)

lemma lower_percent: "lower (CHR ''%'' # q @ ''%'') = CHR ''%'' # lower q @ ''%''"
  by (simp add: lower_def lower_char_def)

lemma ilike_contains:
  "list_all plain_char query \<Longrightarrow> ilike (''%'' @ query @ ''%'') text = contains_ci query text"
  by (simp add: ilike_def contains_ci_def lower_percent like_match_contains plain_lower)

text \<open>
  For a query made of plain characters only (no \<open>%\<close>, no \<open>_\<close>, no backslash) the search
  returns exactly the questions whose text contains the query, letter case apart, with their
  number and a null current category.
\<close>

theorem search_question_plain_query:
  assumes "list_all plain_char query"
  shows "search_question P (search_request query) d =
     Inr (PDict [(PStr ''success'', PBool True),
                 (PStr ''questions'',
                  PList (map question_format
                     (filter (\<lambda>q. contains_ci query (q_question q)) (questions d)))),
                 (PStr ''total_questions'',
                  PInt (int (length
                     (filter (\<lambda>q. contains_ci query (q_question q)) (questions d))))),
                 (PStr ''current_category'', PNone)])"
  using ilike_contains [OF assms]
  by (simp add: search_question_def search_question_try_def search_request_def Let_def)

theorem search_question_plain_query_witness:
  "list_all plain_char ''TITLE'' \<and>
   search_question ref_platform (search_request ''TITLE'') db3 =
     Inr (PDict [(PStr ''success'', PBool True),
                 (PStr ''questions'', PList [question_format q2]),
                 (PStr ''total_questions'', PInt 1),
                 (PStr ''current_category'', PNone)])"
proof -
  have h: "list_all plain_char ''TITLE''" by (simp add: plain_char_def)
  have f: "filter (\<lambda>q. contains_ci ''TITLE'' (q_question q)) (questions db3) = [q2]"
    by code_simp
  from search_question_plain_query [OF h, of ref_platform db3] h f show ?thesis by simp
qed

text \<open>
  A body without \<^verbatim>\<open>query\<close>, or one that is not an object, is answered with 400.
\<close>

theorem search_question_rejects:
  "(\<forall>kvs. map_of kvs (PStr ''query'') = None \<longrightarrow>
       respond (search_question P (PDict kvs) d) = bad_request) \<and>
   (\<forall>body. (\<forall>kvs. body \<noteq> PDict kvs) \<longrightarrow> respond (search_question P body d) = bad_request)"
proof -
  have a: "respond (search_question P (PDict kvs) d) = bad_request"
    if "map_of kvs (PStr ''query'') = None" for kvs
    using that by (simp add: search_question_def search_question_try_def)
  have b: "respond (search_question P body d) = bad_request"
    if "\<forall>kvs. body \<noteq> PDict kvs" for body
    using that by (cases body) (simp_all add: search_question_def search_question_try_def)
  from a b show ?thesis by blast
qed

theorem search_question_rejects_witness:
  "map_of [(PStr ''no_query'', PStr ''wow'')] (PStr ''query'') = None \<and>
   respond (search_question ref_platform (PDict [(PStr ''no_query'', PStr ''wow'')]) db3) =
     bad_request"
proof -
  have h: "map_of [(PStr ''no_query'', PStr ''wow'')] (PStr ''query'') = None" by simp
  from search_question_rejects [of ref_platform db3] h show ?thesis by blast
qed

end
